theory Spec2Isabelle
  imports Main "HOL-Library.Sublist"
begin

section \<open>The world the commands of \<open>cli.py\<close> run in\<close>

text \<open>
  The commands \<open>pack\<close> and \<open>build\<close> of \<open>bentoml_comfyui/cli.py\<close> read and write the
  file system, print through \<open>rich.print\<close> and call routines of other modules. The
  model threads a \<open>world\<close> through every operation: the regular files with their
  contents, the directories, the paths at which \<open>os.stat\<close> fails, and a log of the
  events a caller can observe, in the order in which they happen.

  Strings are lists of bytes, the UTF-8 form in which the operating system hands the
  command line to the program; a path is the string the program holds, and two paths
  are the same entry when the strings are equal.
\<close>

type_synonym path = string

record build_args =
  target :: string
  bento_name :: string
  bento_version :: "string option"
  build_ctx :: path
  docker_system_packages :: "string list"
  python_requirements_txt :: string
  python_lock_packages :: bool
  include_files :: "string list"

record bento =
  tag :: string

datatype event =
    RichPrint string
  | MkdTemp path
  | RmTree path
  | CallPackModel string string
  | CallGetRequirements "string option"
  | CallBuild build_args "path \<rightharpoonup> string" "path set"
  | CallPush bento

text \<open>
  \<open>files\<close> and \<open>dirs\<close> hold the entries that \<open>os.stat\<close> finds. \<open>stat_errors\<close> gives,
  for a path that is not found, the error number with which \<open>os.stat\<close> fails there
  when it is not one of \<open>ENOENT\<close>, \<open>ENOTDIR\<close>, \<open>EBADF\<close>, \<open>ELOOP\<close>: \<open>EACCES\<close> below a
  directory that may not be searched, \<open>ENAMETOOLONG\<close> for a name that is too long.
\<close>

record world =
  files :: "path \<rightharpoonup> string"
  dirs :: "path set"
  stat_errors :: "path \<rightharpoonup> string"
  trace :: "event list"

datatype error =
    InvalidArgument string
  | OSError string path
  | MarkupError string
  | FileExistsError
  | FileNotFoundError path
  | KeyError string
  | ExternalError string

type_synonym 'a cmd = "world \<Rightarrow> (error + 'a) \<times> world"

text \<open>
  Sequencing with exceptions: when the first command raises, the second is skipped
  and the error travels on with the world as the first command left it.
\<close>

definition bnd :: "'a cmd \<Rightarrow> ('a \<Rightarrow> 'b cmd) \<Rightarrow> 'b cmd" where
  "bnd m f w = (case m w of (Inl e, w') \<Rightarrow> (Inl e, w') | (Inr x, w') \<Rightarrow> f x w')"

definition log_event :: "event \<Rightarrow> world \<Rightarrow> world" where
  "log_event ev w = w\<lparr>trace := trace w @ [ev]\<rparr>"

text \<open>The path is found: it is a regular file or a directory.\<close>

definition path_exists :: "world \<Rightarrow> path \<Rightarrow> bool" where
  "path_exists w p \<longleftrightarrow> files w p \<noteq> None \<or> p \<in> dirs w"

text \<open>
  \<open>Path.exists()\<close> calls \<open>os.stat\<close>. It returns \<open>True\<close> when the path is found and
  \<open>False\<close> when it is not; an \<open>OSError\<close> of \<open>os.stat\<close> other than the four error
  numbers above is not caught and leaves \<open>exists()\<close> as it is.
\<close>

definition Path_exists :: "world \<Rightarrow> path \<Rightarrow> error + bool" where
  "Path_exists w p =
     (if path_exists w p then Inr True
      else case stat_errors w p of
             Some errno \<Rightarrow> Inl (OSError errno p)
           | None \<Rightarrow> Inr False)"

text \<open>
  \<open>Path(a, b)\<close>, \<open>Path(a).joinpath(b)\<close> and \<open>os.path.join(a, b)\<close> for a relative \<open>b\<close>:
  the two parts with one separator between them.
\<close>

definition joinpath :: "path \<Rightarrow> string \<Rightarrow> path" where
  "joinpath p c =
     (if p = [] then c else if last p = CHR ''/'' then p @ c else p @ ''/'' @ c)"

section \<open>Routines of other modules\<close>

text \<open>
  \<open>pack_model\<close> and \<open>get_requirements\<close> (module \<open>_core\<close>), the service template
  (\<open>_service.tpl\<close>), \<open>bentoml.build\<close>, \<open>bentoml.push\<close> and the names \<open>tempfile\<close> draws
  are not in \<open>cli.py\<close>: they are parameters of the model. Each routine returns a value
  or raises; what it does to the platform's own stores is outside the world modelled
  here. Every call is logged, and the call of the build routine is logged with the
  files and directories as they are at that moment, which is what the routine sees.

  The template is held in parsed form, as \<open>str.format\<close> reads it: literal text
  (escaped braces already resolved) and replacement fields, each a keyword with an
  optional conversion.

  Three tables of the interpreter and of \<open>rich\<close> are parameters as well:
  \<open>unicode_printable\<close> says which code points from 128 on \<open>repr\<close> takes as printable
  (the Unicode database of the interpreter); \<open>normalize\<close> is \<open>Style.normalize\<close>, which
  brings the name of a markup tag into its normal form; \<open>handler_error\<close> is the error,
  if any, that evaluating the parameters of an \<open>@\<close> tag gives.
\<close>

datatype conversion = NoConv | ConvS | ConvR

datatype segment = Literal string | Field string conversion

record env =
  pack_model :: "string \<Rightarrow> string \<Rightarrow> error + string"
  get_requirements :: "string option \<Rightarrow> error + string"
  service_template :: "segment list"
  bentoml_build :: "build_args \<Rightarrow> error + bento"
  bentoml_push :: "bento \<Rightarrow> error + unit"
  gettempdir :: path
  random_names :: "string list"
  unicode_printable :: "nat \<Rightarrow> bool"
  normalize :: "string \<Rightarrow> string"
  handler_error :: "string \<Rightarrow> error option"

definition call_pack_model :: "env \<Rightarrow> string \<Rightarrow> string \<Rightarrow> string cmd" where
  "call_pack_model e name workspace w =
     (pack_model e name workspace, log_event (CallPackModel name workspace) w)"

definition call_get_requirements :: "env \<Rightarrow> string option \<Rightarrow> string cmd" where
  "call_get_requirements e python w =
     (get_requirements e python, log_event (CallGetRequirements python) w)"

definition call_build :: "env \<Rightarrow> build_args \<Rightarrow> bento cmd" where
  "call_build e args w =
     (bentoml_build e args, log_event (CallBuild args (files w) (dirs w)) w)"

definition call_push :: "env \<Rightarrow> bento \<Rightarrow> unit cmd" where
  "call_push e b w = (bentoml_push e b, log_event (CallPush b) w)"

section \<open>\<open>repr\<close> of a string\<close>

text \<open>
  \<open>{workspace!r}\<close> formats \<open>repr(workspace)\<close>: the string in single quotes, or in double
  quotes when it holds a single quote and no double quote. The quote in use and the
  backslash are escaped, tab, newline and carriage return are written \<open>\t\<close>, \<open>\n\<close>,
  \<open>\r\<close>, and the other control characters of ASCII as \<open>\xNN\<close>.

  Outside ASCII \<open>repr\<close> works on code points. A well-formed UTF-8 sequence stands for
  its code point, which is kept when it is printable and written \<open>\xNN\<close>, \<open>\uNNNN\<close> or
  \<open>\UNNNNNNNN\<close> otherwise. A byte that is part of no well-formed sequence reaches the
  program as the lone surrogate \<open>U+DC00 + byte\<close> (the \<open>surrogateescape\<close> handler of the
  command line), which is never printable.
\<close>

definition hex_digit :: "nat \<Rightarrow> char" where
  "hex_digit n = (''0123456789abcdef'') ! (n mod 16)"

definition repr_char :: "char \<Rightarrow> char \<Rightarrow> string" where
  "repr_char q c =
     (if c = q \<or> c = CHR 0x5C then [CHR 0x5C, c]
      else if c = CHR 0x09 then [CHR 0x5C, CHR ''t'']
      else if c = CHR 0x0A then [CHR 0x5C, CHR ''n'']
      else if c = CHR 0x0D then [CHR 0x5C, CHR ''r'']
      else if of_char c < (32::nat) \<or> of_char c = (127::nat)
        then [CHR 0x5C, CHR ''x'', hex_digit (of_char c div 16), hex_digit (of_char c)]
      else [c])"

definition escape_code_point :: "nat \<Rightarrow> string" where
  "escape_code_point cp =
     (if cp < 256 then [CHR 0x5C, CHR ''x''] @ map (\<lambda>k. hex_digit (cp div 16 ^ k)) [1, 0]
      else if cp < 65536
        then [CHR 0x5C, CHR ''u''] @ map (\<lambda>k. hex_digit (cp div 16 ^ k)) [3, 2, 1, 0]
      else [CHR 0x5C, CHR ''U''] @ map (\<lambda>k. hex_digit (cp div 16 ^ k)) [7, 6, 5, 4, 3, 2, 1, 0])"

definition continuation :: "char \<Rightarrow> bool" where
  "continuation c \<longleftrightarrow> (128::nat) \<le> of_char c \<and> of_char c < (192::nat)"

text \<open>
  The code point of the UTF-8 sequence that starts with byte \<open>c\<close> and goes on in
  \<open>cs\<close>, with the number of bytes of \<open>cs\<close> it takes; \<open>None\<close> when there is no
  well-formed sequence (a stray continuation byte, a sequence cut short, an overlong
  form, an encoded surrogate, a code point above \<open>U+10FFFF\<close>).
\<close>

definition utf8_decode :: "char \<Rightarrow> string \<Rightarrow> (nat \<times> nat) option" where
  "utf8_decode c cs =
     (let b0 = (of_char c :: nat) in
      if 194 \<le> b0 \<and> b0 < 224 then
        (case cs of
           c1 # _ \<Rightarrow>
             if continuation c1 then Some ((b0 - 192) * 64 + (of_char c1 - 128), 1) else None
         | _ \<Rightarrow> None)
      else if 224 \<le> b0 \<and> b0 < 240 then
        (case cs of
           c1 # c2 # _ \<Rightarrow>
             if continuation c1 \<and> continuation c2 then
               (let cp = (b0 - 224) * 4096 + (of_char c1 - 128) * 64 + (of_char c2 - 128)
                in if 2048 \<le> cp \<and> \<not> (55296 \<le> cp \<and> cp < 57344) then Some (cp, 2) else None)
             else None
         | _ \<Rightarrow> None)
      else if 240 \<le> b0 \<and> b0 < 245 then
        (case cs of
           c1 # c2 # c3 # _ \<Rightarrow>
             if continuation c1 \<and> continuation c2 \<and> continuation c3 then
               (let cp = (b0 - 240) * 262144 + (of_char c1 - 128) * 4096
                           + (of_char c2 - 128) * 64 + (of_char c3 - 128)
                in if 65536 \<le> cp \<and> cp < 1114112 then Some (cp, 3) else None)
             else None
         | _ \<Rightarrow> None)
      else None)"

fun repr_chars :: "env \<Rightarrow> char \<Rightarrow> string \<Rightarrow> string" where
  "repr_chars e q [] = []"
| "repr_chars e q (c # cs) =
     (if of_char c < (128::nat) then repr_char q c @ repr_chars e q cs
      else (case utf8_decode c cs of
              None \<Rightarrow> escape_code_point (56320 + of_char c) @ repr_chars e q cs
            | Some (cp, k) \<Rightarrow>
                (if unicode_printable e cp then c # take k cs else escape_code_point cp)
                  @ repr_chars e q (drop k cs)))"

definition py_repr :: "env \<Rightarrow> string \<Rightarrow> string" where
  "py_repr e s =
     (let q = (if CHR 0x27 \<in> set s \<and> CHR 0x22 \<notin> set s then CHR 0x22 else CHR 0x27)
      in q # repr_chars e q s @ [q])"

section \<open>\<open>rich.print\<close>\<close>

text \<open>
  \<open>rich.print\<close> reads its text as console markup before it prints anything. The
  tags are the matches of the pattern \<open>(\\*)\[([a-z#/@][^[]*?)]\<close> from left to right:
  a run of backslashes, an opening bracket, a first character out of \<open>a\<close> to \<open>z\<close>,
  \<open>#\<close>, \<open>/\<close>, \<open>@\<close>, and then the characters up to the next closing bracket, none of
  them an opening bracket. An odd number of backslashes escapes the tag, which is
  then text.
\<close>

type_synonym markup_tag = "string \<times> string option"

definition tag_char :: "char \<Rightarrow> bool" where
  "tag_char c \<longleftrightarrow>
     ((97::nat) \<le> of_char c \<and> of_char c \<le> (122::nat))
     \<or> c = CHR ''#'' \<or> c = CHR ''/'' \<or> c = CHR ''@''"

definition tag_body :: "string \<Rightarrow> (string \<times> string) option" where
  "tag_body cs =
     (case cs of
        [] \<Rightarrow> None
      | c # cs' \<Rightarrow>
          if \<not> tag_char c then None
          else (case dropWhile (\<lambda>x. x \<noteq> CHR '']'' \<and> x \<noteq> CHR ''['') cs' of
                  [] \<Rightarrow> None
                | r # rest \<Rightarrow>
                    if r = CHR '']''
                    then Some (c # takeWhile (\<lambda>x. x \<noteq> CHR '']'' \<and> x \<noteq> CHR ''['') cs', rest)
                    else None))"

text \<open>\<open>text.partition("=")\<close>: the name of the tag and, after the first \<open>=\<close>, its parameters.\<close>

definition make_tag :: "string \<Rightarrow> markup_tag" where
  "make_tag body =
     (takeWhile (\<lambda>x. x \<noteq> CHR ''='') body,
      if CHR ''='' \<in> set body then Some (tl (dropWhile (\<lambda>x. x \<noteq> CHR ''='') body)) else None)"

definition tag_markup :: "markup_tag \<Rightarrow> string" where
  "tag_markup t =
     (case snd t of
        None \<Rightarrow> ''['' @ fst t @ '']''
      | Some parameters \<Rightarrow> ''['' @ fst t @ ''='' @ parameters @ '']'')"

text \<open>The tags of a text; \<open>n\<close> counts the backslashes that come right before.\<close>

function scan_tags :: "nat \<Rightarrow> string \<Rightarrow> markup_tag list" where
  "scan_tags n [] = []"
| "scan_tags n (c # cs) =
     (if c = CHR 0x5C then scan_tags (Suc n) cs
      else if c = CHR ''['' then
        (case tag_body cs of
           None \<Rightarrow> scan_tags 0 cs
         | Some (body, rest) \<Rightarrow> (if even n then [make_tag body] else []) @ scan_tags 0 rest)
      else scan_tags 0 cs)"
  by pat_completeness auto
termination
proof (relation "measure (\<lambda>(n, s). length s)")
  fix n :: nat and c :: char and cs body rest :: string and x :: "string \<times> string"
  assume "tag_body cs = Some x" and "(body, rest) = x"
  then have b: "tag_body cs = Some (body, rest)" by simp
  then obtain c' cs' where cs: "cs = c' # cs'"
    by (cases cs) (simp_all add: tag_body_def)
  let ?P = "\<lambda>x. x \<noteq> CHR '']'' \<and> x \<noteq> CHR ''[''"
  from b cs obtain r where "dropWhile ?P cs' = r # rest"
    by (auto simp: tag_body_def split: if_splits list.splits)
  then have "Suc (length rest) = length (dropWhile ?P cs')" by simp
  also have "\<dots> \<le> length cs'" by (rule length_dropWhile_le)
  finally show "((0, rest), n, c # cs) \<in> measure (\<lambda>(n, s). length s)"
    using cs by simp
qed simp_all

text \<open>
  \<open>str.strip()\<close>: the white space of Unicode is taken off both ends. The characters
  are \<open>U+0009\<close> to \<open>U+000D\<close>, \<open>U+001C\<close> to \<open>U+0020\<close>, \<open>U+0085\<close>, \<open>U+00A0\<close>, \<open>U+1680\<close>,
  \<open>U+2000\<close> to \<open>U+200A\<close>, \<open>U+2028\<close>, \<open>U+2029\<close>, \<open>U+202F\<close>, \<open>U+205F\<close> and \<open>U+3000\<close>, here
  in UTF-8.
\<close>

definition whitespace :: "string list" where
  "whitespace =
     map (\<lambda>b. [b]) [CHR 0x09, CHR 0x0A, CHR 0x0B, CHR 0x0C, CHR 0x0D,
                     CHR 0x1C, CHR 0x1D, CHR 0x1E, CHR 0x1F, CHR 0x20]
     @ [[CHR 0xC2, CHR 0x85], [CHR 0xC2, CHR 0xA0], [CHR 0xE1, CHR 0x9A, CHR 0x80]]
     @ map (\<lambda>b. [CHR 0xE2, CHR 0x80, b])
         [CHR 0x80, CHR 0x81, CHR 0x82, CHR 0x83, CHR 0x84, CHR 0x85, CHR 0x86, CHR 0x87,
          CHR 0x88, CHR 0x89, CHR 0x8A, CHR 0xA8, CHR 0xA9, CHR 0xAF]
     @ [[CHR 0xE2, CHR 0x81, CHR 0x9F], [CHR 0xE3, CHR 0x80, CHR 0x80]]"

function strip_prefixes :: "string list \<Rightarrow> string \<Rightarrow> string" where
  "strip_prefixes ps s =
     (case find (\<lambda>p. p \<noteq> [] \<and> prefix p s) ps of
        None \<Rightarrow> s
      | Some p \<Rightarrow> strip_prefixes ps (drop (length p) s))"
  by pat_completeness auto
termination
proof (relation "measure (\<lambda>(ps, s). length s)")
  fix ps :: "string list" and s p :: string
  assume "find (\<lambda>p. p \<noteq> [] \<and> prefix p s) ps = Some p"
  then have "p \<noteq> []" and "prefix p s" by (auto simp: find_Some_iff)
  then have "0 < length p" and "length p \<le> length s"
    by (simp_all add: prefix_length_le)
  then have "length s - length p < length s" by arith
  then show "((ps, drop (length p) s), ps, s) \<in> measure (\<lambda>(ps, s). length s)" by simp
qed simp

definition py_strip :: "string \<Rightarrow> string" where
  "py_strip s = rev (strip_prefixes (map rev whitespace) (rev (strip_prefixes whitespace s)))"

text \<open>
  The loop of \<open>rich.markup.render\<close> over the tags, with the stack of the open tags. An
  opening tag is pushed under its normal name. A closing tag \<open>[/name]\<close> takes the
  topmost open tag of that name off the stack, \<open>[/]\<close> takes the top of the stack;
  when there is none, \<open>MarkupError\<close> is raised (the error is modelled with the tag
  its message quotes). The parameters of an \<open>@\<close> tag are evaluated when the tag is
  closed. Nothing else in the rendering of a text raises; errors of the output stream
  are outside the model.
\<close>

fun pop_style :: "string \<Rightarrow> markup_tag list \<Rightarrow> (markup_tag \<times> markup_tag list) option" where
  "pop_style style_name [] = None"
| "pop_style style_name (t # stack) =
     (if fst t = style_name then Some (t, stack)
      else (case pop_style style_name stack of
              None \<Rightarrow> None
            | Some (found, stack') \<Rightarrow> Some (found, t # stack')))"

definition close_tag ::
  "env \<Rightarrow> string \<Rightarrow> markup_tag list \<Rightarrow> (markup_tag \<times> markup_tag list) option" where
  "close_tag e style_name stack =
     (if style_name \<noteq> [] then pop_style (normalize e style_name) stack
      else (case stack of [] \<Rightarrow> None | t # stack' \<Rightarrow> Some (t, stack')))"

definition handler_check :: "env \<Rightarrow> markup_tag \<Rightarrow> error option" where
  "handler_check e open_tag =
     (if take 1 (fst open_tag) = ''@''
         \<and> (case snd open_tag of None \<Rightarrow> False | Some parameters \<Rightarrow> parameters \<noteq> [])
      then handler_error e (the (snd open_tag)) else None)"

fun render_tags :: "env \<Rightarrow> markup_tag list \<Rightarrow> markup_tag list \<Rightarrow> error option" where
  "render_tags e stack [] = None"
| "render_tags e stack (t # ts) =
     (if take 1 (fst t) = ''/'' then
        (case close_tag e (py_strip (drop 1 (fst t))) stack of
           None \<Rightarrow>
             Some (MarkupError (if py_strip (drop 1 (fst t)) \<noteq> [] then tag_markup t else ''[/]''))
         | Some (open_tag, stack') \<Rightarrow>
             (case handler_check e open_tag of
                Some err \<Rightarrow> Some err
              | None \<Rightarrow> render_tags e stack' ts))
      else render_tags e ((normalize e (fst t), snd t) # stack) ts)"

definition markup_error :: "env \<Rightarrow> string \<Rightarrow> error option" where
  "markup_error e s = render_tags e [] (scan_tags 0 s)"

definition rich_print :: "env \<Rightarrow> string \<Rightarrow> unit cmd" where
  "rich_print e s w =
     (case markup_error e s of
        Some err \<Rightarrow> (Inl err, w)
      | None \<Rightarrow> (Inr (), log_event (RichPrint s) w))"

section \<open>The workspace validator\<close>

text \<open>
  \<open>_check_comfyui_workspace\<close> (lines 10 to 19): the loop over the three fingerprints
  raises \<open>InvalidArgument\<close> at the first one that \<open>exists()\<close> does not find under the
  workspace; an error of \<open>exists()\<close> itself is not caught.
\<close>

definition comfy_fingerprints :: "string list" where
  "comfy_fingerprints = [''comfy'', ''comfy_execution'', ''comfy_extras'']"

definition workspace_message :: "env \<Rightarrow> string \<Rightarrow> string" where
  "workspace_message e workspace =
     py_repr e workspace
       @ '' does not look like a ComfyUI workspace. Please give a correct path.''"

fun check_fingerprints :: "env \<Rightarrow> string \<Rightarrow> string list \<Rightarrow> unit cmd" where
  "check_fingerprints e workspace [] w = (Inr (), w)"
| "check_fingerprints e workspace (fingerprint # rest) w =
     (case Path_exists w (joinpath workspace fingerprint) of
        Inl err \<Rightarrow> (Inl err, w)
      | Inr found \<Rightarrow>
          if \<not> found then (Inl (InvalidArgument (workspace_message e workspace)), w)
          else check_fingerprints e workspace rest w)"

definition check_comfyui_workspace :: "env \<Rightarrow> string \<Rightarrow> unit cmd" where
  "check_comfyui_workspace e workspace = check_fingerprints e workspace comfy_fingerprints"

section \<open>\<open>str.format\<close> with keyword arguments\<close>

definition convert :: "env \<Rightarrow> conversion \<Rightarrow> string \<Rightarrow> string" where
  "convert e c v = (case c of NoConv \<Rightarrow> v | ConvS \<Rightarrow> v | ConvR \<Rightarrow> py_repr e v)"

fun py_format :: "env \<Rightarrow> segment list \<Rightarrow> (string \<times> string) list \<Rightarrow> error + string" where
  "py_format e [] kwargs = Inr []"
| "py_format e (Literal s # rest) kwargs =
     (case py_format e rest kwargs of Inl err \<Rightarrow> Inl err | Inr r \<Rightarrow> Inr (s @ r))"
| "py_format e (Field k c # rest) kwargs =
     (case map_of kwargs k of
        None \<Rightarrow> Inl (KeyError k)
      | Some v \<Rightarrow> (case py_format e rest kwargs of
                    Inl err \<Rightarrow> Inl err
                  | Inr r \<Rightarrow> Inr (convert e c v @ r)))"

section \<open>The command \<open>pack\<close>\<close>

text \<open>
  Lines 38 to 55. \<open>if version:\<close> tests the truth value of an optional string: \<open>None\<close>
  and the empty string are both false.
\<close>

definition truthy :: "string option \<Rightarrow> bool" where
  "truthy version = (case version of None \<Rightarrow> False | Some v \<Rightarrow> v \<noteq> [])"

definition pack_confirmation :: "env \<Rightarrow> string \<Rightarrow> string \<Rightarrow> string" where
  "pack_confirmation e workspace tg =
     [CHR 0xE2, CHR 0x9C, CHR 0x85] @ '' [green]Successfully packed ComfyUI workspace ''
       @ py_repr e workspace @ '' to BentoML model '' @ tg @ ''[/]''"

definition pack_hint :: string where
  "pack_hint =
     ''[blue]Next step, build a bento with the workspace:'' @ [CHR 0x0A]
       @ ''    $ bentoml comfyui build --model {tag}'' @ [CHR 0x0A]
       @ ''Or, build and push to the cloud in one go:'' @ [CHR 0x0A]
       @ ''    $ bentoml comfyui build --push --model {tag}[/]''"

text \<open>Lines 42 to 46: the validation and the call of the packer, which gives the tag.\<close>

definition pack_tag :: "env \<Rightarrow> string \<Rightarrow> string option \<Rightarrow> string \<Rightarrow> string cmd" where
  "pack_tag e name version workspace =
     bnd (check_comfyui_workspace e workspace) (\<lambda>_.
     call_pack_model e (if truthy version then name @ '':'' @ the version else name) workspace)"

text \<open>The whole command.\<close>

definition pack :: "env \<Rightarrow> string \<Rightarrow> string option \<Rightarrow> string \<Rightarrow> unit cmd" where
  "pack e name version workspace =
     bnd (check_comfyui_workspace e workspace) (\<lambda>_.
     bnd (call_pack_model e (if truthy version then name @ '':'' @ the version else name) workspace)
       (\<lambda>tg.
     bnd (rich_print e (pack_confirmation e workspace tg)) (\<lambda>_.
     rich_print e pack_hint)))"

section \<open>The temporary directory\<close>

text \<open>
  \<open>tempfile.TemporaryDirectory(prefix, suffix)\<close> as a context manager. On entry
  \<open>mkdtemp\<close> tries the random names in turn and makes the first directory that does
  not exist yet; when every name is taken it raises \<open>FileExistsError\<close>. On exit,
  normal or by an exception, the directory and everything below it is removed.
\<close>

fun mkdtemp_loop :: "path \<Rightarrow> string \<Rightarrow> string \<Rightarrow> string list \<Rightarrow> path cmd" where
  "mkdtemp_loop dir pre suf [] w = (Inl FileExistsError, w)"
| "mkdtemp_loop dir pre suf (name # names) w =
     (let file = joinpath dir (pre @ name @ suf)
      in if path_exists w file then mkdtemp_loop dir pre suf names w
         else (Inr file, log_event (MkdTemp file) (w\<lparr>dirs := insert file (dirs w)\<rparr>)))"

definition mkdtemp :: "env \<Rightarrow> string \<Rightarrow> string \<Rightarrow> path cmd" where
  "mkdtemp e pre suf = mkdtemp_loop (gettempdir e) pre suf (random_names e)"

definition below :: "path \<Rightarrow> path \<Rightarrow> bool" where
  "below d p \<longleftrightarrow> p = d \<or> prefix (joinpath d []) p"

definition rmtree :: "path \<Rightarrow> world \<Rightarrow> world" where
  "rmtree d w =
     log_event (RmTree d)
       (w\<lparr>files := (\<lambda>p. if below d p then None else files w p),
          dirs := dirs w - {p. below d p}\<rparr>)"

definition temporary_directory ::
  "env \<Rightarrow> string \<Rightarrow> string \<Rightarrow> (path \<Rightarrow> 'a cmd) \<Rightarrow> 'a cmd" where
  "temporary_directory e pre suf body w =
     (case mkdtemp e pre suf w of
        (Inl err, w1) \<Rightarrow> (Inl err, w1)
      | (Inr temp_dir, w1) \<Rightarrow>
          (case body temp_dir w1 of (r, w2) \<Rightarrow> (r, rmtree temp_dir w2)))"

section \<open>Writing files\<close>

text \<open>
  \<open>open(parent.joinpath(name), "w")\<close> makes the file empty and needs its directory;
  \<open>f.write(s)\<close> appends; \<open>shutil.copy2(src, dst)\<close> needs the source to be a regular
  file (which \<open>click\<close> has checked of the workflow when it read the command line) and
  the directory of the destination.
\<close>

definition open_write :: "path \<Rightarrow> string \<Rightarrow> unit cmd" where
  "open_write parent name w =
     (if parent \<notin> dirs w then (Inl (FileNotFoundError (joinpath parent name)), w)
      else (Inr (), w\<lparr>files := (files w)(joinpath parent name \<mapsto> [])\<rparr>))"

definition file_write :: "path \<Rightarrow> string \<Rightarrow> unit cmd" where
  "file_write f s w =
     (Inr (), w\<lparr>files := (files w)(f \<mapsto> (case files w f of None \<Rightarrow> [] | Some c \<Rightarrow> c) @ s)\<rparr>)"

definition copy2 :: "path \<Rightarrow> path \<Rightarrow> string \<Rightarrow> unit cmd" where
  "copy2 src parent name w =
     (case files w src of
        None \<Rightarrow> (Inl (FileNotFoundError src), w)
      | Some c \<Rightarrow>
          if parent \<notin> dirs w then (Inl (FileNotFoundError (joinpath parent name)), w)
          else (Inr (), w\<lparr>files := (files w)(joinpath parent name \<mapsto> c)\<rparr>))"

section \<open>The command \<open>build\<close>\<close>

text \<open>Lines 119 to 123: \<open>requirements.txt\<close>.\<close>

fun write_packages :: "path \<Rightarrow> string list \<Rightarrow> unit cmd" where
  "write_packages f [] w = (Inr (), w)"
| "write_packages f (package # rest) w =
     bnd (file_write f (CHR 0x0A # package)) (\<lambda>_. write_packages f rest) w"

definition folder_icon :: string where
  "folder_icon = [CHR 0xF0, CHR 0x9F, CHR 0x93, CHR 0x82]"

definition write_requirements :: "env \<Rightarrow> string option \<Rightarrow> string list \<Rightarrow> path \<Rightarrow> unit cmd" where
  "write_requirements e python extra_python_packages parent =
     bnd (rich_print e (folder_icon @ '' [blue]Creating requirements.txt[/]'')) (\<lambda>_.
     bnd (open_write parent ''requirements.txt'') (\<lambda>_.
     bnd (call_get_requirements e python) (\<lambda>reqs.
     bnd (file_write (joinpath parent ''requirements.txt'') reqs) (\<lambda>_.
     write_packages (joinpath parent ''requirements.txt'') extra_python_packages))))"

text \<open>Lines 124 to 126: \<open>service.py\<close>.\<close>

definition write_service :: "env \<Rightarrow> string \<Rightarrow> string \<Rightarrow> path \<Rightarrow> unit cmd" where
  "write_service e name model parent =
     bnd (rich_print e (folder_icon @ '' [blue]Creating service.py[/]'')) (\<lambda>_.
     bnd (open_write parent ''service.py'') (\<lambda>_.
     bnd (\<lambda>w. (py_format e (service_template e) [(''name'', name), (''model_tag'', model)], w))
       (\<lambda>text.
     file_write (joinpath parent ''service.py'') text)))"

text \<open>Lines 127 and 128: \<open>workflow.json\<close>.\<close>

definition copy_workflow :: "env \<Rightarrow> path \<Rightarrow> path \<Rightarrow> unit cmd" where
  "copy_workflow e workflow parent =
     bnd (rich_print e (folder_icon @ '' [blue]Creating workflow.json[/]'')) (\<lambda>_.
     copy2 workflow parent ''workflow.json'')"

text \<open>Lines 129 to 148: the arguments of \<open>bentoml.build\<close>.\<close>

definition default_system_packages :: "string list" where
  "default_system_packages =
     [''git'', ''libglib2.0-0'', ''libsm6'', ''libxrender1'', ''libxext6'', ''ffmpeg'',
      ''libstdc++-12-dev'']"

definition bentoml_build_args ::
  "string \<Rightarrow> string option \<Rightarrow> path \<Rightarrow> string list \<Rightarrow> build_args" where
  "bentoml_build_args name version temp_dir system_packages =
     \<lparr>target = ''service:ComfyUIService'',
      bento_name = name,
      bento_version = version,
      build_ctx = temp_dir,
      docker_system_packages = default_system_packages @ system_packages,
      python_requirements_txt = ''requirements.txt'',
      python_lock_packages = True,
      include_files = [''service.py'', ''workflow.json'', ''requirements.txt'']\<rparr>"

definition build_in_dir ::
  "env \<Rightarrow> string \<Rightarrow> string option \<Rightarrow> string \<Rightarrow> string option \<Rightarrow> string list \<Rightarrow> string list
     \<Rightarrow> path \<Rightarrow> path \<Rightarrow> bento cmd" where
  "build_in_dir e name version model python system_packages extra_python_packages workflow temp_dir =
     bnd (write_requirements e python extra_python_packages temp_dir) (\<lambda>_.
     bnd (write_service e name model temp_dir) (\<lambda>_.
     bnd (copy_workflow e workflow temp_dir) (\<lambda>_.
     call_build e (bentoml_build_args name version temp_dir system_packages))))"

text \<open>Lines 149 to 160: the messages after the build, and the push.\<close>

definition build_confirmation :: "env \<Rightarrow> bento \<Rightarrow> string \<Rightarrow> string" where
  "build_confirmation e b workflow =
     [CHR 0xE2, CHR 0x9C, CHR 0x85] @ '' [green]Successfully built Bento '' @ tag b
       @ '' from ComfyUI workflow '' @ py_repr e workflow @ ''[/]''"

definition next_steps :: "bento \<Rightarrow> string" where
  "next_steps b =
     ''[blue]Next steps:''
       @ [CHR 0x0A, CHR 0x0A] @ ''* Deploy to BentoCloud:'' @ [CHR 0x0A]
       @ ''    $ bentoml deploy '' @ tag b @ '' -n ${DEPLOYMENT_NAME}''
       @ [CHR 0x0A, CHR 0x0A] @ ''* Update an existing deployment on BentoCloud:'' @ [CHR 0x0A]
       @ ''    $ bentoml deployment update --bento '' @ tag b @ '' ${DEPLOYMENT_NAME}[/]''"

definition report_and_push :: "env \<Rightarrow> bool \<Rightarrow> path \<Rightarrow> bento \<Rightarrow> unit cmd" where
  "report_and_push e push workflow b =
     bnd (rich_print e (build_confirmation e b workflow)) (\<lambda>_.
     if push then bnd (call_push e b) (\<lambda>_. rich_print e (next_steps b))
     else (\<lambda>w. (Inr (), w)))"

text \<open>
  The whole command, lines 96 to 160: the \<open>with\<close> block around the build, then the
  messages and the push.
\<close>

definition build ::
  "env \<Rightarrow> string \<Rightarrow> string option \<Rightarrow> string \<Rightarrow> string option \<Rightarrow> string list \<Rightarrow> string list
     \<Rightarrow> bool \<Rightarrow> path \<Rightarrow> unit cmd" where
  "build e name version model python system_packages extra_python_packages push workflow =
     bnd (temporary_directory e ''bentoml-comfyui-'' ''-bento''
            (build_in_dir e name version model python system_packages extra_python_packages
               workflow))
         (report_and_push e push workflow)"

text \<open>The events a command adds to the log.\<close>

definition new_events :: "world \<Rightarrow> world \<Rightarrow> event list" where
  "new_events w w' = drop (length (trace w)) (trace w')"

text \<open>The calls of the packer in a log, each with the name and the workspace it was given.\<close>

fun packer_calls :: "event list \<Rightarrow> (string \<times> string) list" where
  "packer_calls [] = []"
| "packer_calls (CallPackModel name workspace # evs) = (name, workspace) # packer_calls evs"
| "packer_calls (ev # evs) = packer_calls evs"

text \<open>
  The calls of the build routine in a log, each with its arguments and the files and
  directories it saw, and the calls of the push routine.
\<close>

fun build_calls :: "event list \<Rightarrow> (build_args \<times> (path \<rightharpoonup> string) \<times> path set) list" where
  "build_calls [] = []"
| "build_calls (CallBuild args fs ds # evs) = (args, fs, ds) # build_calls evs"
| "build_calls (ev # evs) = build_calls evs"


text \<open>
  Names for parts of the log of \<open>build\<close>: a progress message, and the events that
  follow the \<open>with\<close> block for a given outcome of the build routine.
\<close>

definition creating :: "string \<Rightarrow> event" where
  "creating name = RichPrint (folder_icon @ '' [blue]Creating '' @ name @ ''[/]'')"

definition after_events :: "env \<Rightarrow> bool \<Rightarrow> path \<Rightarrow> error + bento \<Rightarrow> event list" where
  "after_events e push workflow r =
     (case r of
        Inl err \<Rightarrow> []
      | Inr b \<Rightarrow>
          (case markup_error e (build_confirmation e b workflow) of
             Some err \<Rightarrow> []
           | None \<Rightarrow>
               RichPrint (build_confirmation e b workflow)
                 # (if push
                    then CallPush b
                           # (case bentoml_push e b of
                                Inl err \<Rightarrow> []
                              | Inr u \<Rightarrow>
                                  (case markup_error e (next_steps b) of
                                     Some err \<Rightarrow> []
                                   | None \<Rightarrow> [RichPrint (next_steps b)]))
                    else [])))"


text \<open>The result of lines 149 to 160 for the bento \<open>b\<close>.\<close>

definition report_result :: "env \<Rightarrow> bool \<Rightarrow> path \<Rightarrow> bento \<Rightarrow> error + unit" where
  "report_result e push workflow b =
     (case markup_error e (build_confirmation e b workflow) of
        Some err \<Rightarrow> Inl err
      | None \<Rightarrow>
          if push
          then (case bentoml_push e b of
                  Inl err \<Rightarrow> Inl err
                | Inr u \<Rightarrow>
                    (case markup_error e (next_steps b) of
                       Some err \<Rightarrow> Inl err
                     | None \<Rightarrow> Inr ()))
          else Inr ())"

text \<open>
  Modelled from the spec: the packer \<open>pack_model\<close> of module \<open>_core\<close>, which line 46
  calls and which is not part of \<open>cli.py\<close>. The spec says that it "accepts a name
  (optionally with a version suffix) and a workspace path; returns an artifact
  identifier (tag)", and that with a version set "the resulting tag equals
  \<open>name:version\<close>": when the packer returns, the tag is the name it was given.
\<close>

definition tag_is_name :: "env \<Rightarrow> string \<Rightarrow> string \<Rightarrow> bool" where
  "tag_is_name e name workspace \<longleftrightarrow>
     (case pack_model e name workspace of Inl err \<Rightarrow> True | Inr tg \<Rightarrow> tg = name)"

section \<open>Sample worlds and routines\<close>

definition empty_world :: world where
  "empty_world = \<lparr>files = Map.empty, dirs = {}, stat_errors = Map.empty, trace = []\<rparr>"

definition comfy_world :: world where
  "comfy_world =
     \<lparr>files = Map.empty,
      dirs = {''ws'', ''ws/comfy'', ''ws/comfy_execution'', ''ws/comfy_extras''},
      stat_errors = Map.empty,
      trace = []\<rparr>"

definition half_world :: world where
  "half_world =
     \<lparr>files = Map.empty, dirs = {''ws'', ''ws/comfy''}, stat_errors = Map.empty, trace = []\<rparr>"


definition ws_message :: string where
  "ws_message = CHR 0x27 # ''ws'' @ [CHR 0x27]
     @ '' does not look like a ComfyUI workspace. Please give a correct path.''"

text \<open>
  The sample routines: a packer that keeps a name with a version and adds one
  otherwise, a part of the table of the code points that are not printable (controls,
  spaces, format characters, surrogates and private use), and style names that are in
  normal form already.
\<close>

definition sample_env :: env where
  "sample_env =
     \<lparr>pack_model =
        (\<lambda>name workspace. Inr (if CHR '':'' \<in> set name then name else name @ '':auto'')),
      get_requirements = (\<lambda>python. Inr ''torch==2.0''),
      service_template =
        [Literal ''svc('', Field ''name'' NoConv, Literal '', '', Field ''model_tag'' NoConv,
         Literal '')''],
      bentoml_build = (\<lambda>args. Inr \<lparr>tag = bento_name args @ '':b1''\<rparr>),
      bentoml_push = (\<lambda>b. Inr ()),
      gettempdir = ''/tmp'',
      random_names = [''abc'', ''def''],
      unicode_printable =
        (\<lambda>cp. \<not> (cp < 161 \<or> cp = 173 \<or> cp = 5760 \<or> (8192 \<le> cp \<and> cp < 8208)
                   \<or> (8232 \<le> cp \<and> cp < 8240) \<or> (8287 \<le> cp \<and> cp < 8304) \<or> cp = 12288
                   \<or> (55296 \<le> cp \<and> cp < 63744) \<or> cp = 65279)),
      normalize = (\<lambda>style. style),
      handler_error = (\<lambda>parameters. None)\<rparr>"

definition build_world :: world where
  "build_world =
     \<lparr>files = [''wf.json'' \<mapsto> ''{}''],
      dirs = {''/tmp''},
      stat_errors = Map.empty,
      trace = []\<rparr>"


definition failing_env :: env where
  "failing_env = sample_env\<lparr>bentoml_build := (\<lambda>args. Inl (ExternalError ''build failed''))\<rparr>"

definition sample_dir :: path where
  "sample_dir = ''/tmp/bentoml-comfyui-abc-bento''"

definition sample_files :: "path \<rightharpoonup> string" where
  "sample_files =
     [''wf.json'' \<mapsto> ''{}'',
      ''/tmp/bentoml-comfyui-abc-bento/requirements.txt''
         \<mapsto> ''torch==2.0'' @ [CHR 0x0A] @ ''numpy'' @ [CHR 0x0A] @ ''pillow'',
      ''/tmp/bentoml-comfyui-abc-bento/service.py'' \<mapsto> ''svc(comfyui-service, comfyui)'',
      ''/tmp/bentoml-comfyui-abc-bento/workflow.json'' \<mapsto> ''{}'']"

section \<open>Properties of the validator\<close>

lemma Path_exists_found: "path_exists w p \<Longrightarrow> Path_exists w p = Inr True"
  by (simp add: Path_exists_def)

lemma check_fingerprints_found:
  "\<forall>f\<in>set fs. path_exists w (joinpath ws f) \<Longrightarrow> check_fingerprints e ws fs w = (Inr (), w)"
  by (induction fs) (simp_all add: Path_exists_found)



lemma check_fingerprints_errors:
  "fst (check_fingerprints e ws fs w) = Inl err \<Longrightarrow>
     err = InvalidArgument (workspace_message e ws)
     \<or> (\<exists>f\<in>set fs. \<exists>errno. stat_errors w (joinpath ws f) = Some errno
            \<and> err = OSError errno (joinpath ws f))"
  by (induction fs) (auto simp: Path_exists_def split: sum.splits if_splits option.splits)

lemma comfy_world_valid:
  "\<forall>f\<in>set comfy_fingerprints. path_exists comfy_world (joinpath ''ws'' f)"
  by (simp add: comfy_fingerprints_def path_exists_def joinpath_def comfy_world_def)

lemma comfy_world_markers:
  "path_exists comfy_world (joinpath ''ws'' ''comfy'')"
  "path_exists comfy_world (joinpath ''ws'' ''comfy_execution'')"
  "path_exists comfy_world (joinpath ''ws'' ''comfy_extras'')"
  using comfy_world_valid by (simp_all add: comfy_fingerprints_def)

lemma repr_ws: "py_repr e ''ws'' = CHR 0x27 # ''ws'' @ [CHR 0x27]"
  by (simp add: py_repr_def repr_char_def Let_def)

lemma empty_world_message:
  "fst (check_comfyui_workspace sample_env ''ws'' empty_world) = Inl (InvalidArgument ws_message)"
  by (simp add: check_comfyui_workspace_def comfy_fingerprints_def Path_exists_def
      path_exists_def joinpath_def empty_world_def workspace_message_def repr_ws ws_message_def)

lemma half_world_message:
  "fst (check_comfyui_workspace sample_env ''ws'' half_world) = Inl (InvalidArgument ws_message)"
  by (simp add: check_comfyui_workspace_def comfy_fingerprints_def Path_exists_def
      path_exists_def joinpath_def half_world_def workspace_message_def repr_ws ws_message_def)




text \<open>
  Claim C2, as amended. Whenever the validator raises \<open>InvalidArgument\<close>, the message
  is the \<open>repr\<close> of the workspace path that was given, followed by a fixed sentence:
  it names the workspace and is fixed by the workspace path alone, so it is the same
  whichever fingerprint is missing.
\<close>

theorem check_comfyui_workspace_message:
  "fst (check_comfyui_workspace e workspace w) = Inl (InvalidArgument msg) \<Longrightarrow>
     msg = py_repr e workspace
             @ '' does not look like a ComfyUI workspace. Please give a correct path.''
     \<and> sublist (py_repr e workspace) msg"
  using check_fingerprints_errors [of e workspace comfy_fingerprints w "InvalidArgument msg"]
  by (auto simp: check_comfyui_workspace_def workspace_message_def)

theorem check_comfyui_workspace_message_witness:
  "fst (check_comfyui_workspace sample_env ''ws'' empty_world) = Inl (InvalidArgument ws_message)
   \<and> ws_message = py_repr sample_env ''ws''
             @ '' does not look like a ComfyUI workspace. Please give a correct path.''
   \<and> fst (check_comfyui_workspace sample_env ''ws'' half_world) = Inl (InvalidArgument ws_message)"
  using empty_world_message half_world_message
    check_comfyui_workspace_message [OF empty_world_message]
  by simp

text \<open>
  The claim as stated fails: with nothing under \<open>ws\<close> the missing fingerprint is
  \<open>ws/comfy\<close>, with only \<open>ws/comfy\<close> present it is \<open>ws/comfy_execution\<close>; the
  message is the same in both worlds and contains neither path.
\<close>

theorem message_names_marker_counterexample:
  "fst (check_comfyui_workspace sample_env ''ws'' empty_world) = Inl (InvalidArgument ws_message)
   \<and> fst (check_comfyui_workspace sample_env ''ws'' half_world) = Inl (InvalidArgument ws_message)
   \<and> \<not> path_exists empty_world (joinpath ''ws'' ''comfy'')
   \<and> \<not> sublist (joinpath ''ws'' ''comfy'') ws_message
   \<and> \<not> sublist ''comfy'' ws_message
   \<and> path_exists half_world (joinpath ''ws'' ''comfy'')
   \<and> \<not> path_exists half_world (joinpath ''ws'' ''comfy_execution'')
   \<and> \<not> sublist (joinpath ''ws'' ''comfy_execution'') ws_message"
proof -
  have 3: "\<not> path_exists empty_world (joinpath ''ws'' ''comfy'')"
    "path_exists half_world (joinpath ''ws'' ''comfy'')"
    "\<not> path_exists half_world (joinpath ''ws'' ''comfy_execution'')"
    by (simp_all add: path_exists_def joinpath_def empty_world_def half_world_def)
  have 4: "\<not> sublist (joinpath ''ws'' ''comfy'') ws_message"
    unfolding ws_message_def joinpath_def by code_simp
  have 5: "\<not> sublist ''comfy'' ws_message"
    unfolding ws_message_def by code_simp
  have 6: "\<not> sublist (joinpath ''ws'' ''comfy_execution'') ws_message"
    unfolding ws_message_def joinpath_def by code_simp
  from empty_world_message half_world_message 3 4 5 6 show ?thesis by blast
qed

section \<open>Properties of \<open>rich.print\<close> on the fixed texts\<close>

declare strip_prefixes.simps [simp del]

lemma strip_prefixes_Nil [simp]: "strip_prefixes ps [] = []"
proof -
  have "find (\<lambda>p. p \<noteq> [] \<and> prefix p []) ps = None"
    by (simp add: find_None_iff)
  then show ?thesis by (subst strip_prefixes.simps) simp
qed

lemma py_strip_Nil [simp]: "py_strip [] = []"
  by (simp add: py_strip_def)

lemma pack_hint_markup: "markup_error e pack_hint = None"
  by (simp add: markup_error_def pack_hint_def tag_body_def tag_char_def make_tag_def
      close_tag_def handler_check_def)

lemma creating_markup:
  "markup_error e (folder_icon @ '' [blue]Creating requirements.txt[/]'') = None"
  "markup_error e (folder_icon @ '' [blue]Creating service.py[/]'') = None"
  "markup_error e (folder_icon @ '' [blue]Creating workflow.json[/]'') = None"
  by (simp_all add: markup_error_def folder_icon_def tag_body_def tag_char_def make_tag_def
      close_tag_def handler_check_def)

section \<open>Properties of \<open>pack\<close>\<close>

lemma new_events_append: "trace w' = trace w @ evs \<Longrightarrow> new_events w w' = evs"
  by (simp add: new_events_def)

lemma pack_tag_valid:
  assumes "\<forall>f\<in>set comfy_fingerprints. path_exists w (joinpath workspace f)"
  shows "pack_tag e name version workspace w =
     (pack_model e (if truthy version then name @ '':'' @ the version else name) workspace,
      log_event
        (CallPackModel (if truthy version then name @ '':'' @ the version else name) workspace) w)"
  using assms
  by (simp add: pack_tag_def bnd_def check_comfyui_workspace_def check_fingerprints_found
      call_pack_model_def)

lemma pack_trace:
  assumes "\<forall>f\<in>set comfy_fingerprints. path_exists w (joinpath workspace f)"
  shows "trace (snd (pack e name version workspace w)) =
     trace w @ CallPackModel (if truthy version then name @ '':'' @ the version else name) workspace
       # (case pack_model e (if truthy version then name @ '':'' @ the version else name) workspace of
            Inl err \<Rightarrow> []
          | Inr tg \<Rightarrow>
              (case markup_error e (pack_confirmation e workspace tg) of
                 Some err \<Rightarrow> []
               | None \<Rightarrow> [RichPrint (pack_confirmation e workspace tg), RichPrint pack_hint]))"
  using assms
  by (simp add: pack_def bnd_def check_comfyui_workspace_def check_fingerprints_found
      call_pack_model_def rich_print_def log_event_def pack_hint_markup
      split: sum.splits option.splits)

lemma packer_calls_prints [simp]:
  "packer_calls (case x of Some err \<Rightarrow> [] | None \<Rightarrow> [RichPrint a, RichPrint b]) = []"
  by (cases x) simp_all


text \<open>
  Claim C3, as amended. On a valid workspace the packer is called once. With a
  \<open>--version\<close> that is not the empty string the name it is given is \<open>name:version\<close>,
  and hence, the packer being as the spec describes it, so is the tag that line 46
  obtains and that the confirmation prints. Without \<open>--version\<close> the name it is given
  is \<open>name\<close> alone. The command is lines 42 to 46 followed by the two prints.
\<close>

theorem pack_name_passed:
  assumes "\<forall>f\<in>set comfy_fingerprints. path_exists w (joinpath workspace f)"
    and "v \<noteq> [] \<longrightarrow> tag_is_name e (name @ '':'' @ v) workspace"
  shows "(v \<noteq> [] \<longrightarrow>
            packer_calls (new_events w (snd (pack e name (Some v) workspace w)))
              = [(name @ '':'' @ v, workspace)]
            \<and> (\<forall>tg. fst (pack_tag e name (Some v) workspace w) = Inr tg \<longrightarrow>
                  tg = name @ '':'' @ v)
            \<and> (\<forall>s. RichPrint s \<in> set (new_events w (snd (pack e name (Some v) workspace w)))
                  \<longrightarrow> s = pack_confirmation e workspace (name @ '':'' @ v) \<or> s = pack_hint))
         \<and> packer_calls (new_events w (snd (pack e name None workspace w)))
              = [(name, workspace)]
         \<and> pack e name version workspace w =
             bnd (pack_tag e name version workspace) (\<lambda>tg.
             bnd (rich_print e (pack_confirmation e workspace tg)) (\<lambda>_.
             rich_print e pack_hint)) w"
proof -
  have tie: "pack e name version workspace w =
             bnd (pack_tag e name version workspace) (\<lambda>tg.
             bnd (rich_print e (pack_confirmation e workspace tg)) (\<lambda>_.
             rich_print e pack_hint)) w"
    by (simp add: pack_def pack_tag_def bnd_def split: prod.splits sum.splits)
  have rest: "(v \<noteq> [] \<longrightarrow>
            packer_calls (new_events w (snd (pack e name (Some v) workspace w)))
              = [(name @ '':'' @ v, workspace)]
            \<and> (\<forall>tg. fst (pack_tag e name (Some v) workspace w) = Inr tg \<longrightarrow>
                  tg = name @ '':'' @ v)
            \<and> (\<forall>s. RichPrint s \<in> set (new_events w (snd (pack e name (Some v) workspace w)))
                  \<longrightarrow> s = pack_confirmation e workspace (name @ '':'' @ v) \<or> s = pack_hint))
         \<and> packer_calls (new_events w (snd (pack e name None workspace w)))
              = [(name, workspace)]"
    using assms
    by (auto simp: new_events_append [OF pack_trace] pack_tag_valid truthy_def tag_is_name_def
        split: sum.splits option.splits)
  from tie rest show ?thesis by blast
qed

theorem pack_name_passed_witness:
  "path_exists comfy_world (joinpath ''ws'' ''comfy'')
   \<and> path_exists comfy_world (joinpath ''ws'' ''comfy_execution'')
   \<and> path_exists comfy_world (joinpath ''ws'' ''comfy_extras'')
   \<and> ''v2'' \<noteq> []
   \<and> tag_is_name sample_env (''comfyui'' @ '':'' @ ''v2'') ''ws''
   \<and> packer_calls (new_events comfy_world
         (snd (pack sample_env ''comfyui'' (Some ''v2'') ''ws'' comfy_world)))
       = [(''comfyui:v2'', ''ws'')]
   \<and> fst (pack_tag sample_env ''comfyui'' (Some ''v2'') ''ws'' comfy_world) = Inr ''comfyui:v2''
   \<and> RichPrint (pack_confirmation sample_env ''ws'' ''comfyui:v2'')
       \<in> set (new_events comfy_world
                (snd (pack sample_env ''comfyui'' (Some ''v2'') ''ws'' comfy_world)))
   \<and> packer_calls (new_events comfy_world
         (snd (pack sample_env ''comfyui'' None ''ws'' comfy_world)))
       = [(''comfyui'', ''ws'')]"
proof -
  have t: "''v2'' \<noteq> [] \<longrightarrow> tag_is_name sample_env (''comfyui'' @ '':'' @ ''v2'') ''ws''"
    by (simp add: tag_is_name_def sample_env_def)
  have r: "\<exists>tg. fst (pack_tag sample_env ''comfyui'' (Some ''v2'') ''ws'' comfy_world) = Inr tg"
    by (simp add: pack_tag_valid [OF comfy_world_valid] sample_env_def)
  have m: "markup_error sample_env (pack_confirmation sample_env ''ws'' ''comfyui:v2'') = None"
    by (simp add: markup_error_def pack_confirmation_def repr_ws tag_body_def tag_char_def
        make_tag_def close_tag_def handler_check_def)
  have pm: "pack_model sample_env ''comfyui:v2'' ''ws'' = Inr ''comfyui:v2''"
    by (simp add: sample_env_def)
  have p: "RichPrint (pack_confirmation sample_env ''ws'' ''comfyui:v2'')
       \<in> set (new_events comfy_world
                (snd (pack sample_env ''comfyui'' (Some ''v2'') ''ws'' comfy_world)))"
    by (simp add: new_events_append [OF pack_trace [OF comfy_world_valid]] truthy_def m pm)
  from comfy_world_markers t r p
    pack_name_passed [OF comfy_world_valid t, where version = None]
  show ?thesis by auto
qed

text \<open>
  The claim as stated fails when \<open>--version\<close> is supplied as the empty string: the
  packer is given \<open>comfyui\<close>, which is not \<open>comfyui:\<close>.
\<close>

theorem pack_version_supplied_counterexample:
  "packer_calls (new_events comfy_world
         (snd (pack sample_env ''comfyui'' (Some []) ''ws'' comfy_world)))
       = [(''comfyui'', ''ws'')]
   \<and> ''comfyui'' \<noteq> ''comfyui'' @ '':'' @ []"
  by (simp add: new_events_append [OF pack_trace [OF comfy_world_valid]] truthy_def
      split: sum.splits)

text \<open>
  Claim C9. With \<open>--version\<close> supplied as the empty string the version counts as
  omitted: on a valid workspace the packer is given \<open>name\<close> alone, with no \<open>:\<close>
  appended.
\<close>

theorem pack_empty_version:
  assumes "\<forall>f\<in>set comfy_fingerprints. path_exists w (joinpath workspace f)"
  shows "packer_calls (new_events w (snd (pack e name (Some []) workspace w)))
              = [(name, workspace)]"
  using assms
  by (auto simp: new_events_append [OF pack_trace] truthy_def split: sum.splits)

theorem pack_empty_version_witness:
  "path_exists comfy_world (joinpath ''ws'' ''comfy'')
   \<and> path_exists comfy_world (joinpath ''ws'' ''comfy_execution'')
   \<and> path_exists comfy_world (joinpath ''ws'' ''comfy_extras'')
   \<and> packer_calls (new_events comfy_world
         (snd (pack sample_env ''model'' (Some []) ''ws'' comfy_world)))
       = [(''model'', ''ws'')]"
  using comfy_world_markers pack_empty_version [OF comfy_world_valid, of sample_env "''model''"]
  by simp



section \<open>Properties of \<open>build\<close>\<close>

lemma joinpath_inject [simp]: "joinpath d a = joinpath d b \<longleftrightarrow> a = b"
  by (auto simp: joinpath_def)

lemma write_packages_eq:
  "files w f = Some c \<Longrightarrow>
     write_packages f pkgs w =
       (Inr (), w\<lparr>files := (files w)(f \<mapsto> c @ concat (map ((#) (CHR 0x0A)) pkgs))\<rparr>)"
proof (induction pkgs arbitrary: w c)
  case Nil
  then show ?case by (simp add: map_upd_triv)
next
  case (Cons p ps)
  show ?case
    using Cons.prems
    by (simp add: bnd_def file_write_def Cons.IH [where c = "c @ CHR 0x0A # p"] fun_upd_def
        cong: if_cong)
qed

lemma write_requirements_eq:
  "parent \<in> dirs w \<Longrightarrow>
     write_requirements e python extra parent w =
       (case get_requirements e python of
          Inl err \<Rightarrow>
            (Inl err, w\<lparr>files := (files w)(joinpath parent ''requirements.txt'' \<mapsto> []),
                        trace := trace w @ [creating ''requirements.txt'', CallGetRequirements python]\<rparr>)
        | Inr reqs \<Rightarrow>
            (Inr (), w\<lparr>files := (files w)(joinpath parent ''requirements.txt''
                                   \<mapsto> reqs @ concat (map ((#) (CHR 0x0A)) extra)),
                       trace := trace w @ [creating ''requirements.txt'', CallGetRequirements python]\<rparr>))"
  by (simp add: write_requirements_def bnd_def rich_print_def creating_markup log_event_def open_write_def
      call_get_requirements_def file_write_def write_packages_eq creating_def
      split: sum.splits)

lemma write_service_eq:
  "parent \<in> dirs w \<Longrightarrow>
     write_service e name model parent w =
       (case py_format e (service_template e) [(''name'', name), (''model_tag'', model)] of
          Inl err \<Rightarrow>
            (Inl err, w\<lparr>files := (files w)(joinpath parent ''service.py'' \<mapsto> []),
                        trace := trace w @ [RichPrint (folder_icon @ '' [blue]Creating service.py[/]'')]\<rparr>)
        | Inr text \<Rightarrow>
            (Inr (), w\<lparr>files := (files w)(joinpath parent ''service.py'' \<mapsto> text),
                       trace := trace w @ [RichPrint (folder_icon @ '' [blue]Creating service.py[/]'')]\<rparr>))"
  by (simp add: write_service_def bnd_def rich_print_def creating_markup log_event_def open_write_def
      file_write_def split: sum.splits)

lemma copy_workflow_eq:
  "parent \<in> dirs w \<Longrightarrow>
     copy_workflow e workflow parent w =
       (case files w workflow of
          None \<Rightarrow>
            (Inl (FileNotFoundError workflow),
             w\<lparr>trace := trace w @ [RichPrint (folder_icon @ '' [blue]Creating workflow.json[/]'')]\<rparr>)
        | Some c \<Rightarrow>
            (Inr (), w\<lparr>files := (files w)(joinpath parent ''workflow.json'' \<mapsto> c),
                       trace := trace w @ [RichPrint (folder_icon @ '' [blue]Creating workflow.json[/]'')]\<rparr>))"
  by (simp add: copy_workflow_def bnd_def rich_print_def creating_markup log_event_def copy2_def
      split: option.splits)

lemma mkdtemp_loop_cases:
  "mkdtemp_loop dir pre suf names w = (r, w1) \<Longrightarrow>
     (r = Inl FileExistsError \<and> w1 = w)
     \<or> (\<exists>d. r = Inr d \<and> \<not> path_exists w d
            \<and> w1 = w\<lparr>dirs := insert d (dirs w), trace := trace w @ [MkdTemp d]\<rparr>)"
  by (induction names) (auto simp: Let_def log_event_def split: if_splits)

lemma mkdtemp_Inr:
  "mkdtemp e pre suf w = (Inr d, w1) \<Longrightarrow>
     \<not> path_exists w d \<and> w1 = w\<lparr>dirs := insert d (dirs w), trace := trace w @ [MkdTemp d]\<rparr>"
  using mkdtemp_loop_cases [of "gettempdir e" pre suf "random_names e" w "Inr d" w1]
  by (auto simp: mkdtemp_def)

lemma mkdtemp_Inl:
  "mkdtemp e pre suf w = (Inl err, w1) \<Longrightarrow> err = FileExistsError \<and> w1 = w"
  using mkdtemp_loop_cases [of "gettempdir e" pre suf "random_names e" w "Inl err" w1]
  by (auto simp: mkdtemp_def)

lemma build_in_dir_cases:
  assumes "d \<in> dirs w"
  obtains
    (requirements_failed) err where
      "get_requirements e python = Inl err"
      "build_in_dir e name version model python sp extra workflow d w =
         (Inl err, w\<lparr>files := (files w)(joinpath d ''requirements.txt'' \<mapsto> []),
                     trace := trace w @ [creating ''requirements.txt'', CallGetRequirements python]\<rparr>)"
  | (format_failed) reqs err where
      "get_requirements e python = Inr reqs"
      "py_format e (service_template e) [(''name'', name), (''model_tag'', model)] = Inl err"
      "build_in_dir e name version model python sp extra workflow d w =
         (Inl err,
          w\<lparr>files := (files w)(joinpath d ''requirements.txt''
                                 \<mapsto> reqs @ concat (map ((#) (CHR 0x0A)) extra),
                               joinpath d ''service.py'' \<mapsto> []),
            trace := trace w @ [creating ''requirements.txt'', CallGetRequirements python,
                                creating ''service.py'']\<rparr>)"
  | (copy_failed) reqs svc where
      "get_requirements e python = Inr reqs"
      "py_format e (service_template e) [(''name'', name), (''model_tag'', model)] = Inr svc"
      "build_in_dir e name version model python sp extra workflow d w =
         (Inl (FileNotFoundError workflow),
          w\<lparr>files := (files w)(joinpath d ''requirements.txt''
                                 \<mapsto> reqs @ concat (map ((#) (CHR 0x0A)) extra),
                               joinpath d ''service.py'' \<mapsto> svc),
            trace := trace w @ [creating ''requirements.txt'', CallGetRequirements python,
                                creating ''service.py'', creating ''workflow.json'']\<rparr>)"
  | (called) reqs svc c fs where
      "get_requirements e python = Inr reqs"
      "py_format e (service_template e) [(''name'', name), (''model_tag'', model)] = Inr svc"
      "fs = (files w)(joinpath d ''requirements.txt''
                                 \<mapsto> reqs @ concat (map ((#) (CHR 0x0A)) extra),
                               joinpath d ''service.py'' \<mapsto> svc,
                               joinpath d ''workflow.json'' \<mapsto> c)"
      "build_in_dir e name version model python sp extra workflow d w =
         (bentoml_build e (bentoml_build_args name version d sp),
          w\<lparr>files := fs,
            trace := trace w @ [creating ''requirements.txt'', CallGetRequirements python,
                                creating ''service.py'', creating ''workflow.json'',
                                CallBuild (bentoml_build_args name version d sp) fs (dirs w)]\<rparr>)"
proof (cases "get_requirements e python")
  case (Inl err)
  with assms requirements_failed show ?thesis
    by (simp add: build_in_dir_def bnd_def write_requirements_eq
        creating_def)
next
  case reqs: (Inr reqs)
  show ?thesis
  proof (cases "py_format e (service_template e) [(''name'', name), (''model_tag'', model)]")
    case (Inl err)
    with assms reqs format_failed show ?thesis
      by (simp add: build_in_dir_def bnd_def write_requirements_eq write_service_eq
          creating_def)
  next
    case svc: (Inr svc)
    show ?thesis
    proof (cases "((files w)(joinpath d ''requirements.txt''
                                 \<mapsto> reqs @ concat (map ((#) (CHR 0x0A)) extra),
                               joinpath d ''service.py'' \<mapsto> svc)) workflow")
      case None
      with assms reqs svc copy_failed show ?thesis
        by (simp add: build_in_dir_def bnd_def write_requirements_eq write_service_eq
            copy_workflow_eq creating_def)
    next
      case (Some c)
      with assms reqs svc called [of reqs svc _ c] show ?thesis
        by (simp add: build_in_dir_def bnd_def write_requirements_eq write_service_eq
            copy_workflow_eq creating_def call_build_def log_event_def)
    qed
  qed
qed

lemma below_self [simp]: "below d d"
  by (simp add: below_def)

lemma below_joinpath [simp]: "below d (joinpath d c)"
  by (auto simp: below_def joinpath_def)

lemma rmtree_removes: "below d p \<Longrightarrow> \<not> path_exists (rmtree d w) p"
  by (simp add: rmtree_def path_exists_def log_event_def)

lemma rmtree_trace [simp]: "trace (rmtree d w) = trace w @ [RmTree d]"
  by (simp add: rmtree_def log_event_def)

lemma report_and_push_frame:
  "files (snd (report_and_push e push workflow b w)) = files w"
  "dirs (snd (report_and_push e push workflow b w)) = dirs w"
  "trace (snd (report_and_push e push workflow b w)) =
     trace w @ after_events e push workflow (Inr b)"
  by (simp_all add: report_and_push_def bnd_def rich_print_def call_push_def log_event_def
      after_events_def split: sum.splits option.splits)

lemma report_and_push_exists:
  "path_exists (snd (report_and_push e push workflow b w)) p = path_exists w p"
  by (simp add: path_exists_def report_and_push_frame)

lemma build_unfold:
  "mkdtemp e ''bentoml-comfyui-'' ''-bento'' w = (Inr d, w1) \<Longrightarrow>
   build_in_dir e name version model python sp extra workflow d w1 = (r, w2) \<Longrightarrow>
     build e name version model python sp extra push workflow w =
       (case r of
          Inl err \<Rightarrow> (Inl err, rmtree d w2)
        | Inr b \<Rightarrow> report_and_push e push workflow b (rmtree d w2))"
  by (simp add: build_def bnd_def temporary_directory_def split: sum.splits)

lemma build_no_directory:
  "mkdtemp e ''bentoml-comfyui-'' ''-bento'' w = (Inl err, w1) \<Longrightarrow>
     build e name version model python sp extra push workflow w = (Inl FileExistsError, w)"
  by (frule mkdtemp_Inl) (simp add: build_def bnd_def temporary_directory_def)

lemma build_removes:
  assumes "mkdtemp e ''bentoml-comfyui-'' ''-bento'' w = (Inr d, w1)" and "below d p"
  shows "\<not> path_exists (snd (build e name version model python sp extra push workflow w)) p"
proof (cases "build_in_dir e name version model python sp extra workflow d w1")
  case (Pair r w2)
  show ?thesis
    using build_unfold [OF assms(1) Pair, of push] rmtree_removes [OF assms(2), of w2]
    by (cases r) (simp_all add: report_and_push_exists)
qed

lemma build_trace:
  assumes "mkdtemp e ''bentoml-comfyui-'' ''-bento'' w = (Inr d, w1)"
    and "build_in_dir e name version model python sp extra workflow d w1 = (r, w2)"
  shows "trace (snd (build e name version model python sp extra push workflow w)) =
           trace w2 @ RmTree d # after_events e push workflow r"
  using build_unfold [OF assms, of push]
  by (cases r) (simp_all add: report_and_push_frame after_events_def)

lemma build_cases:
  obtains
    (no_directory)
      "mkdtemp e ''bentoml-comfyui-'' ''-bento'' w = (Inl FileExistsError, w)"
      "build e name version model python sp extra push workflow w = (Inl FileExistsError, w)"
  | (requirements_failed) d err where
      "mkdtemp e ''bentoml-comfyui-'' ''-bento'' w =
         (Inr d, w\<lparr>dirs := insert d (dirs w), trace := trace w @ [MkdTemp d]\<rparr>)"
      "get_requirements e python = Inl err"
      "fst (build e name version model python sp extra push workflow w) = Inl err"
      "new_events w (snd (build e name version model python sp extra push workflow w)) =
         [MkdTemp d, creating ''requirements.txt'', CallGetRequirements python, RmTree d]"
  | (format_failed) d reqs err where
      "mkdtemp e ''bentoml-comfyui-'' ''-bento'' w =
         (Inr d, w\<lparr>dirs := insert d (dirs w), trace := trace w @ [MkdTemp d]\<rparr>)"
      "get_requirements e python = Inr reqs"
      "py_format e (service_template e) [(''name'', name), (''model_tag'', model)] = Inl err"
      "fst (build e name version model python sp extra push workflow w) = Inl err"
      "new_events w (snd (build e name version model python sp extra push workflow w)) =
         [MkdTemp d, creating ''requirements.txt'', CallGetRequirements python,
          creating ''service.py'', RmTree d]"
  | (copy_failed) d reqs svc where
      "mkdtemp e ''bentoml-comfyui-'' ''-bento'' w =
         (Inr d, w\<lparr>dirs := insert d (dirs w), trace := trace w @ [MkdTemp d]\<rparr>)"
      "get_requirements e python = Inr reqs"
      "py_format e (service_template e) [(''name'', name), (''model_tag'', model)] = Inr svc"
      "fst (build e name version model python sp extra push workflow w)
         = Inl (FileNotFoundError workflow)"
      "new_events w (snd (build e name version model python sp extra push workflow w)) =
         [MkdTemp d, creating ''requirements.txt'', CallGetRequirements python,
          creating ''service.py'', creating ''workflow.json'', RmTree d]"
  | (called) d reqs svc c fs where
      "mkdtemp e ''bentoml-comfyui-'' ''-bento'' w =
         (Inr d, w\<lparr>dirs := insert d (dirs w), trace := trace w @ [MkdTemp d]\<rparr>)"
      "get_requirements e python = Inr reqs"
      "py_format e (service_template e) [(''name'', name), (''model_tag'', model)] = Inr svc"
      "fs = (files w)(joinpath d ''requirements.txt''
                                 \<mapsto> reqs @ concat (map ((#) (CHR 0x0A)) extra),
                               joinpath d ''service.py'' \<mapsto> svc,
                               joinpath d ''workflow.json'' \<mapsto> c)"
      "new_events w (snd (build e name version model python sp extra push workflow w)) =
         [MkdTemp d, creating ''requirements.txt'', CallGetRequirements python,
          creating ''service.py'', creating ''workflow.json'',
          CallBuild (bentoml_build_args name version d sp) fs (insert d (dirs w)), RmTree d]
         @ after_events e push workflow (bentoml_build e (bentoml_build_args name version d sp))"
proof (cases "mkdtemp e ''bentoml-comfyui-'' ''-bento'' w")
  case (Pair r0 w1)
  show ?thesis
  proof (cases r0)
    case (Inl err)
    with Pair mkdtemp_Inl [of e "''bentoml-comfyui-''" "''-bento''" w err w1]
    have "mkdtemp e ''bentoml-comfyui-'' ''-bento'' w = (Inl FileExistsError, w)" by simp
    with no_directory build_no_directory show ?thesis by blast
  next
    case (Inr d)
    with Pair have mk: "mkdtemp e ''bentoml-comfyui-'' ''-bento'' w = (Inr d, w1)" by simp
    from mkdtemp_Inr [OF mk]
    have w1: "w1 = w\<lparr>dirs := insert d (dirs w), trace := trace w @ [MkdTemp d]\<rparr>" by simp
    then have d: "d \<in> dirs w1" by simp
    from d show ?thesis
    proof (cases rule: build_in_dir_cases [where e = e and name = name and version = version
          and model = model and python = python and sp = sp and extra = extra
          and workflow = workflow])
      case (requirements_failed err)
      show ?thesis
        using requirements_failed(1) mk build_trace [OF mk requirements_failed(2), of push]
          build_unfold [OF mk requirements_failed(2), of push]
        by (intro that(2) [of d err]) (simp_all add: w1 new_events_def after_events_def)
    next
      case (format_failed reqs err)
      show ?thesis
        using format_failed(1,2) mk build_trace [OF mk format_failed(3), of push]
          build_unfold [OF mk format_failed(3), of push]
        by (intro that(3) [of d reqs err]) (simp_all add: w1 new_events_def after_events_def)
    next
      case (copy_failed reqs svc)
      show ?thesis
        using copy_failed(1,2) mk build_trace [OF mk copy_failed(3), of push]
          build_unfold [OF mk copy_failed(3), of push]
        by (intro that(4) [of d reqs svc]) (simp_all add: w1 new_events_def after_events_def)
    next
      case (called reqs svc c fs)
      show ?thesis
        using called(1,2,3) mk build_trace [OF mk called(4), of push]
        by (intro that(5) [of d reqs svc fs c]) (simp_all add: w1 new_events_def)
    qed
  qed
qed

lemma build_calls_after [simp]: "build_calls (after_events e push workflow r) = []"
  by (simp add: after_events_def split: sum.splits option.splits)

lemma report_and_push_result:
  "fst (report_and_push e push workflow b w) = report_result e push workflow b"
  by (simp add: report_and_push_def report_result_def bnd_def rich_print_def call_push_def
      split: sum.splits option.splits)

lemma build_success_events:
  assumes mk: "mkdtemp e ''bentoml-comfyui-'' ''-bento'' w = (Inr d, w1)"
    and reqs: "get_requirements e python = Inr reqs"
    and svc: "py_format e (service_template e) [(''name'', name), (''model_tag'', model)] = Inr svc"
    and wf: "((files w)(joinpath d ''requirements.txt''
                 \<mapsto> reqs @ concat (map ((#) (CHR 0x0A)) extra),
               joinpath d ''service.py'' \<mapsto> svc)) workflow = Some c"
    and fs: "fs = (files w)(joinpath d ''requirements.txt''
                 \<mapsto> reqs @ concat (map ((#) (CHR 0x0A)) extra),
               joinpath d ''service.py'' \<mapsto> svc, joinpath d ''workflow.json'' \<mapsto> c)"
  shows "new_events w (snd (build e name version model python sp extra push workflow w)) =
         [MkdTemp d, creating ''requirements.txt'', CallGetRequirements python,
          creating ''service.py'', creating ''workflow.json'',
          CallBuild (bentoml_build_args name version d sp) fs (insert d (dirs w)), RmTree d]
         @ after_events e push workflow (bentoml_build e (bentoml_build_args name version d sp))"
    and "fst (build e name version model python sp extra push workflow w) =
         (case bentoml_build e (bentoml_build_args name version d sp) of
            Inl err \<Rightarrow> Inl err
          | Inr b \<Rightarrow> report_result e push workflow b)"
proof -
  from mkdtemp_Inr [OF mk]
  have w1: "w1 = w\<lparr>dirs := insert d (dirs w), trace := trace w @ [MkdTemp d]\<rparr>" by simp
  have body: "build_in_dir e name version model python sp extra workflow d w1 =
         (bentoml_build e (bentoml_build_args name version d sp),
          w1\<lparr>files := fs,
            trace := trace w1 @ [creating ''requirements.txt'', CallGetRequirements python,
                                creating ''service.py'', creating ''workflow.json'',
                                CallBuild (bentoml_build_args name version d sp) fs (dirs w1)]\<rparr>)"
    using reqs svc wf fs
    by (simp add: w1 build_in_dir_def bnd_def write_requirements_eq write_service_eq
        copy_workflow_eq creating_def call_build_def log_event_def)
  show "new_events w (snd (build e name version model python sp extra push workflow w)) =
         [MkdTemp d, creating ''requirements.txt'', CallGetRequirements python,
          creating ''service.py'', creating ''workflow.json'',
          CallBuild (bentoml_build_args name version d sp) fs (insert d (dirs w)), RmTree d]
         @ after_events e push workflow (bentoml_build e (bentoml_build_args name version d sp))"
    using build_trace [OF mk body, of push] by (simp add: w1 new_events_def)
  show "fst (build e name version model python sp extra push workflow w) =
         (case bentoml_build e (bentoml_build_args name version d sp) of
            Inl err \<Rightarrow> Inl err
          | Inr b \<Rightarrow> report_result e push workflow b)"
    using build_unfold [OF mk body, of push]
    by (simp add: report_and_push_result split: sum.splits)
qed

lemma sample_mkdtemp:
  "mkdtemp sample_env ''bentoml-comfyui-'' ''-bento'' build_world =
     (Inr sample_dir,
      build_world\<lparr>dirs := insert sample_dir (dirs build_world),
                   trace := trace build_world @ [MkdTemp sample_dir]\<rparr>)"
  by (simp add: mkdtemp_def sample_env_def build_world_def sample_dir_def joinpath_def
      path_exists_def log_event_def Let_def)

lemma sample_format:
  "py_format sample_env (service_template sample_env) [(''name'', ''comfyui-service''), (''model_tag'', ''comfyui'')]
     = Inr ''svc(comfyui-service, comfyui)''"
  by (simp add: sample_env_def convert_def)

lemma sample_events:
  "new_events build_world
     (snd (build sample_env ''comfyui-service'' None ''comfyui'' None [''curl'']
             [''numpy'', ''pillow''] push ''wf.json'' build_world)) =
     [MkdTemp sample_dir, creating ''requirements.txt'', CallGetRequirements None,
      creating ''service.py'', creating ''workflow.json'',
      CallBuild (bentoml_build_args ''comfyui-service'' None sample_dir [''curl''])
        sample_files {sample_dir, ''/tmp''},
      RmTree sample_dir]
     @ after_events sample_env push ''wf.json''
         (bentoml_build sample_env (bentoml_build_args ''comfyui-service'' None sample_dir [''curl'']))"
proof -
  have reqs: "get_requirements sample_env None = Inr ''torch==2.0''"
    by (simp add: sample_env_def)
  have wf: "((files build_world)(joinpath sample_dir ''requirements.txt''
                 \<mapsto> ''torch==2.0'' @ concat (map ((#) (CHR 0x0A)) [''numpy'', ''pillow'']),
               joinpath sample_dir ''service.py'' \<mapsto> ''svc(comfyui-service, comfyui)''))
              ''wf.json'' = Some ''{}''"
    by (simp add: build_world_def joinpath_def sample_dir_def)
  have fs: "sample_files = (files build_world)(joinpath sample_dir ''requirements.txt''
                 \<mapsto> ''torch==2.0'' @ concat (map ((#) (CHR 0x0A)) [''numpy'', ''pillow'']),
               joinpath sample_dir ''service.py'' \<mapsto> ''svc(comfyui-service, comfyui)'',
               joinpath sample_dir ''workflow.json'' \<mapsto> ''{}'')"
    by (simp add: sample_files_def build_world_def joinpath_def sample_dir_def)
  have ds: "insert sample_dir (dirs build_world) = {sample_dir, ''/tmp''}"
    by (simp add: build_world_def)
  from build_success_events(1) [OF sample_mkdtemp reqs sample_format wf fs, of None "[''curl'']" push]
  show ?thesis by (simp only: ds)
qed

lemma new_events_same [simp]: "new_events w w = []"
  by (simp add: new_events_def)




lemma build_in_dir_dirs:
  "d \<in> dirs w \<Longrightarrow>
     dirs (snd (build_in_dir e name version model python sp extra workflow d w)) = dirs w"
  by (cases rule: build_in_dir_cases [of d w e python name version model sp extra workflow])
     simp_all

lemma failing_mkdtemp:
  "mkdtemp failing_env ''bentoml-comfyui-'' ''-bento'' build_world =
     (Inr sample_dir,
      build_world\<lparr>dirs := insert sample_dir (dirs build_world),
                   trace := trace build_world @ [MkdTemp sample_dir]\<rparr>)"
  by (simp add: mkdtemp_def failing_env_def sample_env_def build_world_def sample_dir_def
      joinpath_def path_exists_def log_event_def Let_def)

lemma failing_build:
  "new_events build_world
     (snd (build failing_env ''comfyui-service'' None ''comfyui'' None [] [] True ''wf.json''
             build_world)) =
     [MkdTemp sample_dir, creating ''requirements.txt'', CallGetRequirements None,
      creating ''service.py'', creating ''workflow.json'',
      CallBuild (bentoml_build_args ''comfyui-service'' None sample_dir [])
        ((files build_world)(joinpath sample_dir ''requirements.txt'' \<mapsto> ''torch==2.0'',
           joinpath sample_dir ''service.py'' \<mapsto> ''svc(comfyui-service, comfyui)'',
           joinpath sample_dir ''workflow.json'' \<mapsto> ''{}''))
        (insert sample_dir (dirs build_world)),
      RmTree sample_dir]"
  "fst (build failing_env ''comfyui-service'' None ''comfyui'' None [] [] True ''wf.json''
          build_world) = Inl (ExternalError ''build failed'')"
proof -
  have reqs: "get_requirements failing_env None = Inr ''torch==2.0''"
    by (simp add: failing_env_def sample_env_def)
  have svc: "py_format failing_env (service_template failing_env)
               [(''name'', ''comfyui-service''), (''model_tag'', ''comfyui'')]
             = Inr ''svc(comfyui-service, comfyui)''"
    by (simp add: failing_env_def sample_env_def convert_def)
  have wf: "((files build_world)(joinpath sample_dir ''requirements.txt''
                 \<mapsto> ''torch==2.0'' @ concat (map ((#) (CHR 0x0A)) []),
               joinpath sample_dir ''service.py'' \<mapsto> ''svc(comfyui-service, comfyui)''))
              ''wf.json'' = Some ''{}''"
    by (simp add: build_world_def joinpath_def sample_dir_def)
  have fl: "bentoml_build failing_env (bentoml_build_args ''comfyui-service'' None sample_dir [])
              = Inl (ExternalError ''build failed'')"
    by (simp add: failing_env_def)
  note ev = build_success_events [OF failing_mkdtemp reqs svc wf refl, of None "[]" True]
  from ev(1) show "new_events build_world
     (snd (build failing_env ''comfyui-service'' None ''comfyui'' None [] [] True ''wf.json''
             build_world)) =
     [MkdTemp sample_dir, creating ''requirements.txt'', CallGetRequirements None,
      creating ''service.py'', creating ''workflow.json'',
      CallBuild (bentoml_build_args ''comfyui-service'' None sample_dir [])
        ((files build_world)(joinpath sample_dir ''requirements.txt'' \<mapsto> ''torch==2.0'',
           joinpath sample_dir ''service.py'' \<mapsto> ''svc(comfyui-service, comfyui)'',
           joinpath sample_dir ''workflow.json'' \<mapsto> ''{}''))
        (insert sample_dir (dirs build_world)),
      RmTree sample_dir]"
    by (simp add: fl after_events_def)
  from ev(2) show "fst (build failing_env ''comfyui-service'' None ''comfyui'' None [] [] True
          ''wf.json'' build_world) = Inl (ExternalError ''build failed'')"
    by (simp add: fl)
qed

lemma next_steps_not_progress [simp]:
  "next_steps b \<noteq> folder_icon @ s"
  "folder_icon @ s \<noteq> next_steps b"
  "build_confirmation e b' workflow \<noteq> next_steps b"
  "next_steps b \<noteq> build_confirmation e b' workflow"
  by (simp_all add: folder_icon_def next_steps_def build_confirmation_def)







text \<open>
  Claim C4. When the temporary build directory \<open>d\<close> has been made, it exists on
  entry to the \<open>with\<close> block and still exists when the block is left; the build
  routine, when it is called, is given \<open>d\<close> as build context and sees \<open>d\<close> among
  the directories; in the log the creation of \<open>d\<close> comes first and its removal
  comes after everything the block logs, the call of the build routine included; and
  after the command has returned, with a value or with any error, neither \<open>d\<close> nor
  anything below it exists.
\<close>

theorem temporary_directory_scoped:
  assumes "mkdtemp e ''bentoml-comfyui-'' ''-bento'' w = (Inr d, w1)"
  shows "d \<in> dirs w1
     \<and> d \<in> dirs (snd (build_in_dir e name version model python sp extra workflow d w1))
     \<and> (\<forall>args fs ds. (args, fs, ds) \<in> set (build_calls (new_events w
             (snd (build e name version model python sp extra push workflow w)))) \<longrightarrow>
           build_ctx args = d \<and> d \<in> ds)
     \<and> (\<exists>body_events rest.
           new_events w (snd (build e name version model python sp extra push workflow w))
             = MkdTemp d # body_events @ RmTree d # rest
           \<and> RmTree d \<notin> set body_events \<and> build_calls rest = [])
     \<and> \<not> path_exists (snd (build e name version model python sp extra push workflow w)) d
     \<and> (\<forall>p. below d p \<longrightarrow>
           \<not> path_exists (snd (build e name version model python sp extra push workflow w)) p)"
proof -
  from mkdtemp_Inr [OF assms]
  have w1: "w1 = w\<lparr>dirs := insert d (dirs w), trace := trace w @ [MkdTemp d]\<rparr>" by simp
  then have 1: "d \<in> dirs w1" by simp
  then have 2: "d \<in> dirs (snd (build_in_dir e name version model python sp extra workflow d w1))"
    by (simp add: build_in_dir_dirs)
  have 3: "\<forall>args fs ds. (args, fs, ds) \<in> set (build_calls (new_events w
             (snd (build e name version model python sp extra push workflow w)))) \<longrightarrow>
           build_ctx args = d \<and> d \<in> ds"
    using assms
    by (cases rule: build_cases [of e w name version model python sp extra push workflow])
       (auto simp: creating_def bentoml_build_args_def)
  have 4: "\<exists>body_events rest.
           new_events w (snd (build e name version model python sp extra push workflow w))
             = MkdTemp d # body_events @ RmTree d # rest
           \<and> RmTree d \<notin> set body_events \<and> build_calls rest = []"
  proof (cases rule: build_cases [of e w name version model python sp extra push workflow])
    case no_directory
    with assms show ?thesis by simp
  next
    case (requirements_failed d' err)
    with assms have "d' = d" by simp
    with requirements_failed(4) show ?thesis
      by (intro exI [of _ "[creating ''requirements.txt'', CallGetRequirements python]"]
          exI [of _ "[]"]) (simp add: creating_def)
  next
    case (format_failed d' reqs err)
    with assms have "d' = d" by simp
    with format_failed(5) show ?thesis
      by (intro exI [of _ "[creating ''requirements.txt'', CallGetRequirements python,
            creating ''service.py'']"] exI [of _ "[]"]) (simp add: creating_def)
  next
    case (copy_failed d' reqs svc)
    with assms have "d' = d" by simp
    with copy_failed(5) show ?thesis
      by (intro exI [of _ "[creating ''requirements.txt'', CallGetRequirements python,
            creating ''service.py'', creating ''workflow.json'']"] exI [of _ "[]"])
         (simp add: creating_def)
  next
    case (called d' reqs svc c fs)
    with assms have "d' = d" by simp
    with called(5) show ?thesis
      by (intro exI [of _ "[creating ''requirements.txt'', CallGetRequirements python,
            creating ''service.py'', creating ''workflow.json'',
            CallBuild (bentoml_build_args name version d sp) fs (insert d (dirs w))]"]
          exI [of _ "after_events e push workflow
                       (bentoml_build e (bentoml_build_args name version d sp))"])
         (simp add: creating_def)
  qed
  have 5: "\<forall>p. below d p \<longrightarrow>
           \<not> path_exists (snd (build e name version model python sp extra push workflow w)) p"
    using build_removes [OF assms] by blast
  from 1 2 3 4 5 show ?thesis by (simp add: below_self)
qed

theorem temporary_directory_scoped_witness:
  "mkdtemp failing_env ''bentoml-comfyui-'' ''-bento'' build_world =
     (Inr sample_dir,
      build_world\<lparr>dirs := insert sample_dir (dirs build_world),
                   trace := trace build_world @ [MkdTemp sample_dir]\<rparr>)
   \<and> fst (build failing_env ''comfyui-service'' None ''comfyui'' None [] [] True ''wf.json''
          build_world) = Inl (ExternalError ''build failed'')
   \<and> \<not> path_exists (snd (build failing_env ''comfyui-service'' None ''comfyui'' None [] [] True
          ''wf.json'' build_world)) sample_dir
   \<and> \<not> path_exists (snd (build failing_env ''comfyui-service'' None ''comfyui'' None [] [] True
          ''wf.json'' build_world)) (joinpath sample_dir ''service.py'')
   \<and> \<not> path_exists (snd (build sample_env ''comfyui-service'' None ''comfyui'' None [] [] True
          ''wf.json'' build_world)) sample_dir"
  using failing_mkdtemp failing_build(2)
    temporary_directory_scoped [OF failing_mkdtemp, where name = "''comfyui-service''"
      and version = None and model = "''comfyui''" and python = None and sp = "[]"
      and extra = "[]" and push = True and workflow = "''wf.json''"]
    temporary_directory_scoped [OF sample_mkdtemp, where name = "''comfyui-service''"
      and version = None and model = "''comfyui''" and python = None and sp = "[]"
      and extra = "[]" and push = True and workflow = "''wf.json''"]
    below_joinpath [of sample_dir "''service.py''"]
  by blast





text \<open>
  Claim C7. Whenever the build routine is called, and it is called at most once, the
  Docker system packages it is given are the seven fixed packages followed by the
  values of \<open>--system-packages\<close>, the files to include are \<open>service.py\<close>,
  \<open>workflow.json\<close> and \<open>requirements.txt\<close>, and the three files are present in
  the build context.
\<close>

theorem build_arguments:
  assumes "(args, fs, ds) \<in> set (build_calls (new_events w
             (snd (build e name version model python sp extra push workflow w))))"
  shows "docker_system_packages args =
           [''git'', ''libglib2.0-0'', ''libsm6'', ''libxrender1'', ''libxext6'', ''ffmpeg'',
            ''libstdc++-12-dev''] @ sp
         \<and> include_files args = [''service.py'', ''workflow.json'', ''requirements.txt'']
         \<and> fs (joinpath (build_ctx args) ''service.py'') \<noteq> None
         \<and> fs (joinpath (build_ctx args) ''workflow.json'') \<noteq> None
         \<and> fs (joinpath (build_ctx args) ''requirements.txt'') \<noteq> None
         \<and> build_calls (new_events w
             (snd (build e name version model python sp extra push workflow w)))
             = [(args, fs, ds)]"
  using assms
  by (cases rule: build_cases [of e w name version model python sp extra push workflow])
     (auto simp: creating_def bentoml_build_args_def default_system_packages_def)

theorem build_arguments_witness:
  "(bentoml_build_args ''comfyui-service'' None sample_dir [''curl''], sample_files,
      {sample_dir, ''/tmp''})
     \<in> set (build_calls (new_events build_world
             (snd (build sample_env ''comfyui-service'' None ''comfyui'' None [''curl'']
                     [''numpy'', ''pillow''] False ''wf.json'' build_world))))
   \<and> docker_system_packages (bentoml_build_args ''comfyui-service'' None sample_dir [''curl'']) =
           [''git'', ''libglib2.0-0'', ''libsm6'', ''libxrender1'', ''libxext6'', ''ffmpeg'',
            ''libstdc++-12-dev'', ''curl'']
   \<and> include_files (bentoml_build_args ''comfyui-service'' None sample_dir [''curl''])
         = [''service.py'', ''workflow.json'', ''requirements.txt'']"
proof -
  have h: "(bentoml_build_args ''comfyui-service'' None sample_dir [''curl''], sample_files,
      {sample_dir, ''/tmp''})
     \<in> set (build_calls (new_events build_world
             (snd (build sample_env ''comfyui-service'' None ''comfyui'' None [''curl'']
                     [''numpy'', ''pillow''] False ''wf.json'' build_world))))"
    by (simp add: sample_events creating_def)
  from h build_arguments [OF h] show ?thesis by simp
qed




end
